theory Spec2Isabelle
  imports Complex_Main
begin

section \<open>Tensors\<close>

text \<open>
  The notebook \<^verbatim>\<open>2-dgl101/4_message_passing.ipynb\<close> defines the module
  \<^verbatim>\<open>GraphConvWithEdgeWeight\<close> and the message function \<^verbatim>\<open>u_mul_e_udf\<close>. Both are
  written against tensors and a graph object of the host framework, so the embedding starts
  with those.

  A tensor of one or two dimensions is a list of rows, one per index of the first
  dimension. \<open>fshape\<close> is the shape without the first dimension: \<open>None\<close> for a tensor
  of shape \<open>(n,)\<close>, whose rows are the singletons of its entries, and \<open>Some c\<close> for a
  tensor of shape \<open>(n, c)\<close>. Entries are real numbers where the library has
  32-bit floating-point numbers: rounding, the order of additions and overflow are not
  modelled. An equation between entries is therefore one between exact values; the
  floating-point numbers of the library agree with them where no operation rounds, as
  in the examples of this theory, whose entries are small multiples of 1/4.
\<close>

type_synonym vec = "real list"

datatype tensor = Tensor (fshape: "nat option") (rows: "vec list")

definition shape0 :: "tensor \<Rightarrow> nat" where
  "shape0 t = length (rows t)"

definition fwidth :: "nat option \<Rightarrow> nat" where
  \<comment> \<open>the number of entries of one row\<close>
  "fwidth s = (case s of None \<Rightarrow> 1 | Some c \<Rightarrow> c)"

definition width :: "tensor \<Rightarrow> nat" where
  "width t = fwidth (fshape t)"

definition wf_tensor :: "tensor \<Rightarrow> bool" where
  "wf_tensor t = list_all (\<lambda>r. length r = width t) (rows t)"

text \<open>
  The exceptions the calls of \<^verbatim>\<open>forward\<close> can raise, by Python class and message:
  \<^verbatim>\<open>NameError\<close> from the interpreter for a global name that is not bound,
  \<^verbatim>\<open>DGLError\<close> from the graph object, \<^verbatim>\<open>RuntimeError\<close> and \<^verbatim>\<open>IndexError\<close> from
  the tensor library, \<^verbatim>\<open>KeyError\<close> from a missing field.
\<close>

datatype dgl_message =
    FeatureNodeCount   \<comment> \<open>Expect number of features to match number of nodes\<close>
  | FeatureEdgeCount   \<comment> \<open>Expect number of features to match number of edges\<close>
  | NotBroadcastable   \<comment> \<open>Feature shapes are not valid for broadcasting\<close>
  | EmptyFeature       \<comment> \<open>raised by the message passing kernel for features of width 0\<close>

datatype torch_message =
    SizeMismatch       \<comment> \<open>The size of tensor a must match the size of tensor b\<close>
  | CatMismatch        \<comment> \<open>torch.cat: numbers of dimensions or sizes differ\<close>
  | MatmulShapes       \<comment> \<open>mat1 and mat2 shapes cannot be multiplied\<close>

datatype error =
    NameError string   \<comment> \<open>name ... is not defined\<close>
  | DGLError dgl_message
  | RuntimeError torch_message
  | IndexError         \<comment> \<open>Dimension out of range\<close>
  | KeyError string

subsection \<open>Broadcasting\<close>

definition bcast_ok :: "nat \<Rightarrow> nat \<Rightarrow> bool" where
  "bcast_ok c d = (c = d \<or> c = 1 \<or> d = 1)"

definition bcast_dim :: "nat \<Rightarrow> nat \<Rightarrow> nat" where
  "bcast_dim c d = (if c = 1 then d else c)"

definition bget :: "'a list \<Rightarrow> nat \<Rightarrow> 'a" where
  \<comment> \<open>index \<open>j\<close> of a dimension that is stretched when its size is 1\<close>
  "bget xs j = (if length xs = 1 then xs ! 0 else xs ! j)"

definition brow :: "vec \<Rightarrow> vec \<Rightarrow> vec" where
  "brow r s = map (\<lambda>j. bget r j * bget s j) [0..<bcast_dim (length r) (length s)]"

text \<open>
  The built-in binary message functions of \<^verbatim>\<open>dgl.function\<close> broadcast the feature
  shapes (the shapes without the first dimension) by NumPy's rules, after padding the
  operand of fewer dimensions with dimensions of size 1 behind the first.
\<close>

definition dgl_mul :: "tensor \<Rightarrow> tensor \<Rightarrow> error + tensor" where
  "dgl_mul x y =
     (if \<not> bcast_ok (width x) (width y) then Inl (DGLError NotBroadcastable)
      else Inr (Tensor
        (case (fshape x, fshape y) of
           (None, None) \<Rightarrow> None
         | _ \<Rightarrow> Some (bcast_dim (width x) (width y)))
        (map2 brow (rows x) (rows y))))"

text \<open>
  The operator \<^verbatim>\<open>*\<close> of two tensors broadcasts whole shapes, aligned at the last
  dimension: a tensor of shape \<open>(n,)\<close> meets a matrix as the single row \<open>(1, n)\<close>.
\<close>

definition as_2d :: "tensor \<Rightarrow> vec list" where
  "as_2d t = (case fshape t of None \<Rightarrow> [concat (rows t)] | Some c \<Rightarrow> rows t)"

definition ncols :: "tensor \<Rightarrow> nat" where
  "ncols t = (case fshape t of None \<Rightarrow> shape0 t | Some c \<Rightarrow> c)"

definition torch_mul :: "tensor \<Rightarrow> tensor \<Rightarrow> error + tensor" where
  "torch_mul x y =
     (let A = as_2d x; B = as_2d y in
      if \<not> bcast_ok (length A) (length B) \<or> \<not> bcast_ok (ncols x) (ncols y)
      then Inl (RuntimeError SizeMismatch)
      else
        let R = map (\<lambda>i. brow (bget A i) (bget B i)) [0..<bcast_dim (length A) (length B)]
        in if fshape x = None \<and> fshape y = None
           then Inr (Tensor None (map (\<lambda>a. [a]) (concat R)))
           else Inr (Tensor (Some (bcast_dim (ncols x) (ncols y))) R))"

subsection \<open>Concatenation, the linear layer, the rectifier\<close>

definition cat1 :: "tensor \<Rightarrow> tensor \<Rightarrow> error + tensor" where
  \<comment> \<open>\<^verbatim>\<open>torch.cat([x, y], dim=1)\<close>: \<open>dim\<close> is checked against the first tensor\<close>
  "cat1 x y =
     (case fshape x of
        None \<Rightarrow> Inl IndexError
      | Some c \<Rightarrow>
          (case fshape y of
             None \<Rightarrow> Inl (RuntimeError CatMismatch)
           | Some d \<Rightarrow>
               if shape0 x \<noteq> shape0 y then Inl (RuntimeError CatMismatch)
               else Inr (Tensor (Some (c + d)) (map2 (@) (rows x) (rows y)))))"

record Linear =
  in_features :: nat
  out_features :: nat
  weight :: "vec list"
  bias :: vec

definition dot :: "vec \<Rightarrow> vec \<Rightarrow> real" where
  "dot a b = sum_list (map2 (*) a b)"

definition affine :: "Linear \<Rightarrow> vec \<Rightarrow> vec" where
  "affine l x = map2 (\<lambda>wr b. dot wr x + b) (weight l) (bias l)"

definition linear_call :: "Linear \<Rightarrow> tensor \<Rightarrow> error + tensor" where
  \<comment> \<open>calling an \<^verbatim>\<open>nn.Linear\<close>: \<open>y = x W\<^sup>T + b\<close> on the last dimension\<close>
  "linear_call l x =
     (case fshape x of
        Some k \<Rightarrow>
          if k \<noteq> in_features l then Inl (RuntimeError MatmulShapes)
          else Inr (Tensor (Some (out_features l)) (map (affine l) (rows x)))
      | None \<Rightarrow>
          if shape0 x \<noteq> in_features l then Inl (RuntimeError MatmulShapes)
          else Inr (Tensor None (map (\<lambda>a. [a]) (affine l (concat (rows x))))))"

definition relu :: "tensor \<Rightarrow> tensor" where
  "relu t = Tensor (fshape t) (map (map (\<lambda>a. max a 0)) (rows t))"

section \<open>The graph object\<close>

text \<open>
  A graph has nodes \<open>0, ..., num_nodes - 1\<close> and a list of edges \<open>(u, v)\<close> from
  \<open>u\<close> to \<open>v\<close>; the position of an edge in the list is its edge id. \<open>ndata\<close> and
  \<open>edata\<close> are the dictionaries of node and edge features. The framework builds graphs
  whose edges have their endpoints among the nodes (\<open>wf_graph\<close>), so the reads
  \<open>rows t ! i\<close> of \<open>gather\<close> and the updates of \<open>scatter_add\<close> below stay in range.
\<close>

type_synonym frame = "string \<rightharpoonup> tensor"

record graph =
  num_nodes :: nat
  edges :: "(nat \<times> nat) list"
  ndata :: frame
  edata :: frame

definition wf_graph :: "graph \<Rightarrow> bool" where
  "wf_graph g = list_all (\<lambda>(u, v). u < num_nodes g \<and> v < num_nodes g) (edges g)"

definition set_ndata :: "graph \<Rightarrow> string \<Rightarrow> tensor \<Rightarrow> error + graph" where
  \<comment> \<open>\<^verbatim>\<open>g.ndata[k] = t\<close>\<close>
  "set_ndata g k t =
     (if shape0 t \<noteq> num_nodes g then Inl (DGLError FeatureNodeCount)
      else Inr (g\<lparr>ndata := (ndata g)(k \<mapsto> t)\<rparr>))"

definition set_edata :: "graph \<Rightarrow> string \<Rightarrow> tensor \<Rightarrow> error + graph" where
  \<comment> \<open>\<^verbatim>\<open>g.edata[k] = t\<close>\<close>
  "set_edata g k t =
     (if shape0 t \<noteq> length (edges g) then Inl (DGLError FeatureEdgeCount)
      else Inr (g\<lparr>edata := (edata g)(k \<mapsto> t)\<rparr>))"

definition get_ndata :: "graph \<Rightarrow> string \<Rightarrow> error + tensor" where
  \<comment> \<open>\<^verbatim>\<open>g.ndata[k]\<close>\<close>
  "get_ndata g k = (case ndata g k of None \<Rightarrow> Inl (KeyError k) | Some t \<Rightarrow> Inr t)"

text \<open>
  A statement that may raise has an outcome, \<open>Inl\<close> the exception or \<open>Inr\<close> the value,
  and leaves a graph object behind in both cases.

  \<^verbatim>\<open>g.local_scope()\<close> is a context manager written as a generator: it replaces the two
  dictionaries of the graph by copies, yields to the body of the \<^verbatim>\<open>with\<close> statement,
  and puts the caller's dictionaries back in the statements after its \<^verbatim>\<open>yield\<close>.
  These run when the body returns. No \<^verbatim>\<open>try\<close> surrounds the \<^verbatim>\<open>yield\<close>, so an
  exception raised in the body passes through the generator, and the graph keeps the
  copies with the fields assigned so far.
\<close>

type_synonym 'a outcome = "(error + 'a) \<times> graph"

definition local_scope :: "graph \<Rightarrow> (graph \<Rightarrow> 'a outcome) \<Rightarrow> 'a outcome" where
  "local_scope g body =
     (case body g of
        (Inl e, g') \<Rightarrow> (Inl e, g')
      | (Inr r, g') \<Rightarrow> (Inr r, g'\<lparr>ndata := ndata g, edata := edata g\<rparr>))"

subsection \<open>Message passing\<close>

text \<open>
  A message function receives the batch of all edges: \<open>src\<close> and \<open>dst\<close> hold, for every
  node feature, the rows of the source and destination nodes of the edges in edge order,
  and \<open>data\<close> holds the edge features. It returns the dictionary of messages. A reduce
  function receives the number of nodes, the destination of every edge and the messages,
  and returns the dictionary of new node features.
\<close>

record edge_batch =
  src :: frame
  data :: frame
  dst :: frame

type_synonym message_func = "edge_batch \<Rightarrow> error + frame"

type_synonym reduce_func = "nat \<Rightarrow> nat list \<Rightarrow> frame \<Rightarrow> error + frame"

definition gather :: "frame \<Rightarrow> nat list \<Rightarrow> frame" where
  "gather fr ids = (\<lambda>k. map_option (\<lambda>t. Tensor (fshape t) (map (\<lambda>i. rows t ! i) ids)) (fr k))"

definition all_edges :: "graph \<Rightarrow> edge_batch" where
  "all_edges g =
     \<lparr>src = gather (ndata g) (map fst (edges g)),
      data = edata g,
      dst = gather (ndata g) (map snd (edges g))\<rparr>"

definition u_mul_e :: "string \<Rightarrow> string \<Rightarrow> string \<Rightarrow> message_func" where
  \<comment> \<open>the built-in \<^verbatim>\<open>dgl.function.u_mul_e(lhs, rhs, out)\<close>\<close>
  "u_mul_e lhs rhs out eb =
     (case src eb lhs of
        None \<Rightarrow> Inl (KeyError lhs)
      | Some x \<Rightarrow>
          (case data eb rhs of
             None \<Rightarrow> Inl (KeyError rhs)
           | Some y \<Rightarrow>
               (case dgl_mul x y of
                  Inl e \<Rightarrow> Inl e
                | Inr z \<Rightarrow> Inr [out \<mapsto> z])))"

text \<open>
  The user-defined message function of the notebook:
  \<^verbatim>\<open>
  def u_mul_e_udf(edges):
      return {'m' : edges.src['h'] * edges.data['w']}
  \<close>
\<close>

definition u_mul_e_udf :: message_func where
  "u_mul_e_udf eb =
     (case src eb ''h'' of
        None \<Rightarrow> Inl (KeyError ''h'')
      | Some x \<Rightarrow>
          (case data eb ''w'' of
             None \<Rightarrow> Inl (KeyError ''w'')
           | Some y \<Rightarrow>
               (case torch_mul x y of
                  Inl e \<Rightarrow> Inl e
                | Inr z \<Rightarrow> Inr [''m'' \<mapsto> z])))"

text \<open>
  The reducer \<^verbatim>\<open>dgl.function.mean(msg, out)\<close> adds every message to the row of its
  destination node, starting from zero rows, and divides each row by the in-degree of its
  node, the in-degree counted as 1 where it is 0. The kernel that does this refuses
  messages of width 0.
\<close>

definition vadd :: "vec \<Rightarrow> vec \<Rightarrow> vec" where
  "vadd a b = map2 (+) a b"

fun scatter_add :: "vec list \<Rightarrow> (nat \<times> vec) list \<Rightarrow> vec list" where
  "scatter_add acc [] = acc"
| "scatter_add acc ((v, m) # ms) = scatter_add (acc[v := vadd (acc ! v) m]) ms"

definition in_degrees :: "nat \<Rightarrow> nat list \<Rightarrow> nat list" where
  "in_degrees n dsts = map (\<lambda>v. length (filter (\<lambda>d. d = v) dsts)) [0..<n]"

definition mean :: "string \<Rightarrow> string \<Rightarrow> reduce_func" where
  "mean msg out n dsts msgs =
     (case msgs msg of
        None \<Rightarrow> Inl (KeyError msg)
      | Some m \<Rightarrow>
          if width m = 0 then Inl (DGLError EmptyFeature)
          else Inr [out \<mapsto> Tensor (fshape m)
            (map2 (\<lambda>s d. map (\<lambda>a. a / real (max d 1)) s)
               (scatter_add (replicate n (replicate (width m) 0)) (zip dsts (rows m)))
               (in_degrees n dsts))])"

definition update_all :: "graph \<Rightarrow> message_func \<Rightarrow> reduce_func \<Rightarrow> error + graph" where
  \<comment> \<open>\<^verbatim>\<open>g.update_all(message_func, reduce_func)\<close>\<close>
  "update_all g message_func reduce_func =
     (case message_func (all_edges g) of
        Inl e \<Rightarrow> Inl e
      | Inr msgs \<Rightarrow>
          (case reduce_func (num_nodes g) (map snd (edges g)) msgs of
             Inl e \<Rightarrow> Inl e
           | Inr nd \<Rightarrow> Inr (g\<lparr>ndata := ndata g ++ nd\<rparr>)))"

section \<open>The global names of the notebook\<close>

text \<open>
  The import cell of the notebook is
  \<^verbatim>\<open>
  import dgl
  import torch
  import torch.nn as nn
  import torch.nn.functional as F
  \<close>
  and no cell binds the name \<^verbatim>\<open>fn\<close>, which \<^verbatim>\<open>forward\<close> reads. Python looks a
  global name up when the expression is evaluated, so the binding of \<^verbatim>\<open>fn\<close> is an
  argument of the model: \<open>None\<close> in the notebook as it is (\<open>notebook_globals\<close>), and
  the package \<^verbatim>\<open>dgl.function\<close>, where the notebook's text places the built-in message
  and reduce functions, once a cell \<^verbatim>\<open>import dgl.function as fn\<close> has run
  (\<open>imported_globals\<close>).
\<close>

record function_module =
  attr_u_mul_e :: "string \<Rightarrow> string \<Rightarrow> string \<Rightarrow> message_func"
  attr_mean :: "string \<Rightarrow> string \<Rightarrow> reduce_func"

definition dgl_function :: function_module where
  "dgl_function = \<lparr>attr_u_mul_e = u_mul_e, attr_mean = mean\<rparr>"

record globals =
  fn :: "function_module option"

definition notebook_globals :: globals where
  "notebook_globals = \<lparr>fn = None\<rparr>"

definition imported_globals :: globals where
  "imported_globals = \<lparr>fn = Some dgl_function\<rparr>"

definition fn_u_mul_e :: "globals \<Rightarrow> error + message_func" where
  \<comment> \<open>the expression \<^verbatim>\<open>fn.u_mul_e('h', 'w', 'm')\<close>\<close>
  "fn_u_mul_e glob =
     (case fn glob of
        None \<Rightarrow> Inl (NameError ''fn'')
      | Some m \<Rightarrow> Inr (attr_u_mul_e m ''h'' ''w'' ''m''))"

definition fn_mean :: "globals \<Rightarrow> error + reduce_func" where
  \<comment> \<open>the expression \<^verbatim>\<open>fn.mean('m', 'h_neigh')\<close>\<close>
  "fn_mean glob =
     (case fn glob of
        None \<Rightarrow> Inl (NameError ''fn'')
      | Some m \<Rightarrow> Inr (attr_mean m ''m'' ''h_neigh''))"

definition name_u_mul_e_udf :: "globals \<Rightarrow> error + message_func" where
  \<comment> \<open>the expression \<^verbatim>\<open>u_mul_e_udf\<close>, a name the notebook binds\<close>
  "name_u_mul_e_udf glob = Inr u_mul_e_udf"

section \<open>The module GraphConvWithEdgeWeight\<close>

text \<open>
  \<^verbatim>\<open>__init__\<close> creates one submodule, \<^verbatim>\<open>nn.Linear(in_feat * 2, out_feat)\<close>. Its
  weight matrix and its bias vector are drawn at random by the library; here they are
  arguments.
\<close>

record GraphConvWithEdgeWeight =
  linear_layer :: Linear

definition init :: "nat \<Rightarrow> nat \<Rightarrow> vec list \<Rightarrow> vec \<Rightarrow> GraphConvWithEdgeWeight" where
  "init in_feat out_feat W b =
     \<lparr>linear_layer = \<lparr>in_features = in_feat * 2, out_features = out_feat, weight = W, bias = b\<rparr>\<rparr>"

text \<open>
  The method of the notebook:
  \<^verbatim>\<open>
  def forward(self, g, h, w):
      with g.local_scope():
          g.ndata['h'] = h
          g.edata['w'] = w
          g.update_all(fn.u_mul_e('h', 'w', 'm'), fn.mean('m', 'h_neigh'))
          h_neigh = g.ndata['h_neigh']
          h_total = torch.cat([h, h_neigh], dim=1)
          return F.relu(self.linear(h_total))
  \<close>
  \<open>message_passing\<close> is the first four statements of the body, up to the binding of
  \<^verbatim>\<open>h_neigh\<close>; the expression for the message function is an argument, evaluated
  before \<^verbatim>\<open>fn.mean('m', 'h_neigh')\<close> as Python evaluates the arguments of a call
  from left to right. \<open>combine\<close> is the last two statements, a function of \<open>h\<close> and
  \<^verbatim>\<open>h_neigh\<close>. \<open>forward_with\<close> is the whole body inside the local scope, and
  \<open>forward\<close> passes it the expression \<^verbatim>\<open>fn.u_mul_e('h', 'w', 'm')\<close>. A call gives
  its outcome and the graph object as the caller finds it afterwards. The tensors \<open>h\<close>
  and \<open>w\<close> are values: no statement of \<^verbatim>\<open>forward\<close> writes into a tensor.
\<close>

definition message_passing ::
  "globals \<Rightarrow> (globals \<Rightarrow> error + message_func) \<Rightarrow> graph \<Rightarrow> tensor \<Rightarrow> tensor \<Rightarrow> tensor outcome" where
  "message_passing glob mfunc g h w =
     (case set_ndata g ''h'' h of
        Inl e \<Rightarrow> (Inl e, g)
      | Inr g1 \<Rightarrow>
          (case set_edata g1 ''w'' w of
             Inl e \<Rightarrow> (Inl e, g1)
           | Inr g2 \<Rightarrow>
               (case mfunc glob of
                  Inl e \<Rightarrow> (Inl e, g2)
                | Inr message_func \<Rightarrow>
                    (case fn_mean glob of
                       Inl e \<Rightarrow> (Inl e, g2)
                     | Inr reduce_func \<Rightarrow>
                         (case update_all g2 message_func reduce_func of
                            Inl e \<Rightarrow> (Inl e, g2)
                          | Inr g3 \<Rightarrow>
                              (case get_ndata g3 ''h_neigh'' of
                                 Inl e \<Rightarrow> (Inl e, g3)
                               | Inr h_neigh \<Rightarrow> (Inr h_neigh, g3)))))))"

definition combine :: "GraphConvWithEdgeWeight \<Rightarrow> tensor \<Rightarrow> tensor \<Rightarrow> error + tensor" where
  "combine self h h_neigh =
     (case cat1 h h_neigh of
        Inl e \<Rightarrow> Inl e
      | Inr h_total \<Rightarrow>
          (case linear_call (linear_layer self) h_total of
             Inl e \<Rightarrow> Inl e
           | Inr y \<Rightarrow> Inr (relu y)))"

definition forward_with ::
  "globals \<Rightarrow> (globals \<Rightarrow> error + message_func) \<Rightarrow> GraphConvWithEdgeWeight \<Rightarrow> graph \<Rightarrow>
     tensor \<Rightarrow> tensor \<Rightarrow> tensor outcome" where
  "forward_with glob mfunc self g h w =
     local_scope g (\<lambda>g.
       case message_passing glob mfunc g h w of
         (Inl e, g') \<Rightarrow> (Inl e, g')
       | (Inr h_neigh, g') \<Rightarrow>
           (case combine self h h_neigh of
              Inl e \<Rightarrow> (Inl e, g')
            | Inr y \<Rightarrow> (Inr y, g')))"

definition forward ::
  "globals \<Rightarrow> GraphConvWithEdgeWeight \<Rightarrow> graph \<Rightarrow> tensor \<Rightarrow> tensor \<Rightarrow> tensor outcome" where
  "forward glob = forward_with glob fn_u_mul_e"

text \<open>
  The comparison of \<^verbatim>\<open>u_mul_e_udf\<close> with the built-in function it is said to equal
  needs the built-in function: \<open>neighbor_repr\<close> is the value bound to \<^verbatim>\<open>h_neigh\<close>
  once \<^verbatim>\<open>dgl.function\<close> is bound to \<^verbatim>\<open>fn\<close>, and \<open>neighbor_repr_udf\<close> is that
  value when \<^verbatim>\<open>u_mul_e_udf\<close> is passed to \<^verbatim>\<open>update_all\<close> instead.
\<close>

definition neighbor_repr :: "graph \<Rightarrow> tensor \<Rightarrow> tensor \<Rightarrow> error + tensor" where
  "neighbor_repr g h w = fst (message_passing imported_globals fn_u_mul_e g h w)"

definition neighbor_repr_udf :: "graph \<Rightarrow> tensor \<Rightarrow> tensor \<Rightarrow> error + tensor" where
  "neighbor_repr_udf g h w = fst (message_passing imported_globals name_u_mul_e_udf g h w)"

section \<open>The aggregator's contract\<close>

text \<open>
  The notions the contract of the aggregator is written in. Node \<open>v\<close> receives one
  message per edge id in \<open>in_edges g v\<close>; the message of edge \<open>e\<close> from \<open>u\<close> is the
  feature row of \<open>u\<close> scaled by the weight of \<open>e\<close>; \<open>vec_mean F\<close> is the entrywise
  arithmetic mean of vectors of length \<open>F\<close>. \<open>node_features g F h\<close> says that \<open>h\<close> has one
  row of \<open>F\<close> entries per node, \<open>scalar_weights g w\<close> that \<open>w\<close> has one scalar per edge
  (shape \<open>(E,)\<close> or \<open>(E, 1)\<close>), \<open>linear_shapes\<close> that a weight matrix and a bias vector
  have the sizes \<^verbatim>\<open>nn.Linear\<close> gives them.
\<close>

definition in_edges :: "graph \<Rightarrow> nat \<Rightarrow> nat list" where
  "in_edges g v = filter (\<lambda>e. snd (edges g ! e) = v) [0..<length (edges g)]"

definition in_degree :: "graph \<Rightarrow> nat \<Rightarrow> nat" where
  "in_degree g v = length (in_edges g v)"

definition edge_weight :: "tensor \<Rightarrow> nat \<Rightarrow> real" where
  "edge_weight w e = rows w ! e ! 0"

definition edge_message :: "graph \<Rightarrow> tensor \<Rightarrow> tensor \<Rightarrow> nat \<Rightarrow> vec" where
  "edge_message g h w e = map (\<lambda>a. a * edge_weight w e) (rows h ! fst (edges g ! e))"

definition vec_mean :: "nat \<Rightarrow> vec list \<Rightarrow> vec" where
  "vec_mean F ms = map (\<lambda>j. (\<Sum>m\<leftarrow>ms. m ! j) / real (length ms)) [0..<F]"

definition node_features :: "graph \<Rightarrow> nat \<Rightarrow> tensor \<Rightarrow> bool" where
  "node_features g F h = (shape0 h = num_nodes g \<and> fshape h = Some F \<and> wf_tensor h)"

definition scalar_weights :: "graph \<Rightarrow> tensor \<Rightarrow> bool" where
  "scalar_weights g w = (shape0 w = length (edges g) \<and> width w = 1 \<and> wf_tensor w)"




text \<open>
  Names for the parts of the value that \<^verbatim>\<open>update_all\<close> stores under
  \<^verbatim>\<open>h_neigh\<close>: the shape and the rows of the messages, and the rows of their means.
\<close>

definition msg_fshape :: "tensor \<Rightarrow> tensor \<Rightarrow> nat option" where
  "msg_fshape h w =
     (case (fshape h, fshape w) of
        (None, None) \<Rightarrow> None
      | _ \<Rightarrow> Some (bcast_dim (width h) (width w)))"

definition messages :: "graph \<Rightarrow> tensor \<Rightarrow> tensor \<Rightarrow> vec list" where
  "messages g h w = map2 brow (map (\<lambda>i. rows h ! i) (map fst (edges g))) (rows w)"

definition mean_rows :: "nat \<Rightarrow> nat \<Rightarrow> nat list \<Rightarrow> vec list \<Rightarrow> vec list" where
  "mean_rows n c dsts ms =
     map2 (\<lambda>s d. map (\<lambda>a. a / real (max d 1)) s)
       (scatter_add (replicate n (replicate c 0)) (zip dsts ms))
       (in_degrees n dsts)"

subsection \<open>Examples\<close>

text \<open>
  The example of the specification: three nodes, the edges \<open>0 \<rightarrow> 2\<close> and \<open>1 \<rightarrow> 2\<close>
  of weight \<open>1/2\<close>, and the node features \<open>[1, 0]\<close>, \<open>[0, 1]\<close>, \<open>[0, 0]\<close>; a module for
  features of width 2 with bias 1; the \<^verbatim>\<open>h_neigh\<close> of the example, and a zero one.
  Beside them: node features of widths 3 and 1 and with a row missing, neighbour
  features of width 3, weights 0 and weights of width 3, and weight tensors with one
  entry too few and one too many.
\<close>

definition ex_graph :: graph where
  "ex_graph = \<lparr>num_nodes = 3, edges = [(0, 2), (1, 2)], ndata = Map.empty, edata = Map.empty\<rparr>"

definition ex_h :: tensor where
  "ex_h = Tensor (Some 2) [[1, 0], [0, 1], [0, 0]]"

definition ex_w :: tensor where
  "ex_w = Tensor None [[1 / 2], [1 / 2]]"

definition ex_module :: GraphConvWithEdgeWeight where
  "ex_module = init 2 1 [[1, 1, 1, 1]] [1]"

definition ex_neigh :: tensor where
  "ex_neigh = Tensor (Some 2) [[0, 0], [0, 0], [1 / 4, 1 / 4]]"

definition ex_neigh_zero :: tensor where
  "ex_neigh_zero = Tensor (Some 2) [[0, 0], [0, 0], [0, 0]]"

definition ex_h3 :: tensor where
  "ex_h3 = Tensor (Some 3) [[1, 2, 3], [4, 5, 6], [0, 0, 0]]"

definition ex_neigh3 :: tensor where
  "ex_neigh3 = Tensor (Some 3) [[0, 0, 0], [0, 0, 0], [3 / 2, 3, 9 / 2]]"

definition ex_h1 :: tensor where
  "ex_h1 = Tensor (Some 1) [[1], [2], [3]]"

definition ex_w_wide :: tensor where
  "ex_w_wide = Tensor (Some 3) [[1, 2, 3], [1, 2, 3]]"

definition ex_h_ones :: tensor where
  "ex_h_ones = Tensor (Some 2) [[1, 1], [1, 1], [0, 0]]"

definition ex_h_short :: tensor where
  "ex_h_short = Tensor (Some 2) [[1, 0], [0, 1]]"

definition ex_w13 :: tensor where
  "ex_w13 = Tensor None [[1], [3]]"

definition ex_w_zero :: tensor where
  "ex_w_zero = Tensor None [[0], [0]]"

definition ex_w_short :: tensor where
  "ex_w_short = Tensor None [[1 / 2]]"

definition ex_w_long :: tensor where
  "ex_w_long = Tensor None [[1 / 2], [1 / 2], [1 / 2]]"

section \<open>The notebook as it is\<close>

text \<open>
  With \<^verbatim>\<open>fn\<close> unbound, a call of \<^verbatim>\<open>forward\<close> ends in one of three exceptions, and the
  graph keeps the fields assigned before the exception.
\<close>

lemma message_passing_notebook:
  "message_passing notebook_globals fn_u_mul_e g h w =
     (if shape0 h \<noteq> num_nodes g then (Inl (DGLError FeatureNodeCount), g)
      else if shape0 w \<noteq> length (edges g)
        then (Inl (DGLError FeatureEdgeCount), g\<lparr>ndata := (ndata g)(''h'' \<mapsto> h)\<rparr>)
      else (Inl (NameError ''fn''),
            g\<lparr>ndata := (ndata g)(''h'' \<mapsto> h), edata := (edata g)(''w'' \<mapsto> w)\<rparr>))"
  by (simp add: message_passing_def set_ndata_def set_edata_def fn_u_mul_e_def
      notebook_globals_def)

lemma forward_notebook:
  "forward notebook_globals self g h w =
     (if shape0 h \<noteq> num_nodes g then (Inl (DGLError FeatureNodeCount), g)
      else if shape0 w \<noteq> length (edges g)
        then (Inl (DGLError FeatureEdgeCount), g\<lparr>ndata := (ndata g)(''h'' \<mapsto> h)\<rparr>)
      else (Inl (NameError ''fn''),
            g\<lparr>ndata := (ndata g)(''h'' \<mapsto> h), edata := (edata g)(''w'' \<mapsto> w)\<rparr>))"
  by (simp add: forward_def forward_with_def local_scope_def message_passing_notebook)

section \<open>The combination step\<close>


section \<open>Message passing once dgl.function is bound to fn\<close>

subsection \<open>The first four statements in closed form\<close>

lemma message_passing_imported:
  "fst (message_passing imported_globals fn_u_mul_e g h w) =
     (if shape0 h \<noteq> num_nodes g then Inl (DGLError FeatureNodeCount)
      else if shape0 w \<noteq> length (edges g) then Inl (DGLError FeatureEdgeCount)
      else if \<not> bcast_ok (width h) (width w) then Inl (DGLError NotBroadcastable)
      else if fwidth (msg_fshape h w) = 0 then Inl (DGLError EmptyFeature)
      else Inr (Tensor (msg_fshape h w)
                  (mean_rows (num_nodes g) (fwidth (msg_fshape h w))
                     (map snd (edges g)) (messages g h w))))"
  by (simp add: message_passing_def set_ndata_def set_edata_def update_all_def u_mul_e_def
      all_edges_def gather_def dgl_mul_def mean_def get_ndata_def msg_fshape_def messages_def
      mean_rows_def width_def fn_u_mul_e_def fn_mean_def imported_globals_def dgl_function_def
      split: option.splits)

lemma forward_imported_edge_count:
  "(fst (forward imported_globals self g h w) = Inl (DGLError FeatureEdgeCount))
     = (shape0 h = num_nodes g \<and> shape0 w \<noteq> length (edges g))"
  by (auto simp add: forward_def forward_with_def local_scope_def message_passing_def
      set_ndata_def set_edata_def fn_u_mul_e_def fn_mean_def update_all_def get_ndata_def
      combine_def cat1_def linear_call_def imported_globals_def dgl_function_def
      u_mul_e_def mean_def dgl_mul_def
      split: sum.splits option.splits if_splits prod.splits)

subsection \<open>Scatter-add and the mean, node by node\<close>

lemma scatter_add_length: "length (scatter_add acc ms) = length acc"
  by (induction acc ms rule: scatter_add.induct) simp_all

lemma scatter_add_nth:
  "v < length acc \<Longrightarrow>
   scatter_add acc ms ! v = foldl vadd (acc ! v) (map snd (filter (\<lambda>p. fst p = v) ms))"
proof (induction acc ms rule: scatter_add.induct)
  case (1 acc)
  then show ?case by simp
next
  case (2 acc d m ms)
  then show ?case by (cases "d = v") simp_all
qed

lemma foldl_vadd_length:
  "length a = F \<Longrightarrow> \<forall>m\<in>set ms. length m = F \<Longrightarrow> length (foldl vadd a ms) = F"
  by (induction ms arbitrary: a) (simp_all add: vadd_def)

lemma foldl_vadd_nth:
  "length a = F \<Longrightarrow> \<forall>m\<in>set ms. length m = F \<Longrightarrow> j < F \<Longrightarrow>
   foldl vadd a ms ! j = a ! j + (\<Sum>m\<leftarrow>ms. m ! j)"
  by (induction ms arbitrary: a) (simp_all add: vadd_def)

lemma zip_as_map:
  "length xs = length ys \<Longrightarrow> zip xs ys = map (\<lambda>e. (xs ! e, ys ! e)) [0..<length xs]"
  by (rule nth_equalityI) simp_all

lemma incoming_messages:
  assumes "length dsts = length ms"
  shows "map snd (filter (\<lambda>p. fst p = v) (zip dsts ms))
       = map (\<lambda>e. ms ! e) (filter (\<lambda>e. dsts ! e = v) [0..<length dsts])"
  by (simp add: zip_as_map [OF assms] filter_map comp_def)

lemma count_dsts:
  "length (filter (\<lambda>d. d = v) dsts) = length (filter (\<lambda>e. dsts ! e = v) [0..<length dsts])"
proof -
  have "filter (\<lambda>d. d = v) (map (\<lambda>e. dsts ! e) [0..<length dsts])
      = map (\<lambda>e. dsts ! e) (filter (\<lambda>e. dsts ! e = v) [0..<length dsts])"
    by (simp add: filter_map comp_def)
  then have "filter (\<lambda>d. d = v) dsts
      = map (\<lambda>e. dsts ! e) (filter (\<lambda>e. dsts ! e = v) [0..<length dsts])"
    by (simp add: map_nth)
  then show ?thesis by (metis length_map)
qed

lemma in_degrees_nth:
  "v < n \<Longrightarrow> in_degrees n dsts ! v = length (filter (\<lambda>e. dsts ! e = v) [0..<length dsts])"
  by (simp add: in_degrees_def count_dsts)

lemma mean_rows_length: "length (mean_rows n c dsts ms) = n"
  by (simp add: mean_rows_def scatter_add_length in_degrees_def)

lemma mean_rows_nth_zip:
  assumes "v < n"
  shows "mean_rows n c dsts ms ! v =
     map (\<lambda>a. a / real (max (length (filter (\<lambda>d. d = v) dsts)) 1))
       (foldl vadd (replicate c 0) (map snd (filter (\<lambda>p. fst p = v) (zip dsts ms))))"
proof -
  have "mean_rows n c dsts ms ! v =
      map (\<lambda>a. a / real (max (length (filter (\<lambda>d. d = v) dsts)) 1))
        (scatter_add (replicate n (replicate c 0)) (zip dsts ms) ! v)"
    using assms by (simp add: mean_rows_def scatter_add_length in_degrees_def)
  then show ?thesis
    using assms by (simp add: scatter_add_nth)
qed

lemma mean_rows_nth:
  assumes "v < n" "length dsts = length ms"
  shows "mean_rows n c dsts ms ! v =
     map (\<lambda>a. a / real (max (length (filter (\<lambda>e. dsts ! e = v) [0..<length dsts])) 1))
       (foldl vadd (replicate c 0)
          (map (\<lambda>e. ms ! e) (filter (\<lambda>e. dsts ! e = v) [0..<length dsts])))"
  unfolding mean_rows_nth_zip [OF assms(1)] incoming_messages [OF assms(2)] count_dsts ..

subsection \<open>Messages under scalar weights\<close>

lemma in_edges_dsts:
  "filter (\<lambda>e. map snd (edges g) ! e = v) [0..<length (map snd (edges g))] = in_edges g v"
  unfolding in_edges_def by (rule filter_cong) simp_all

lemma in_edges_bound: "e \<in> set (in_edges g v) \<Longrightarrow> e < length (edges g)"
  by (simp add: in_edges_def)

lemma wf_graph_src:
  "wf_graph g \<Longrightarrow> e < length (edges g) \<Longrightarrow> fst (edges g ! e) < num_nodes g"
  by (cases "edges g ! e") (auto simp add: wf_graph_def list_all_length)

lemma wf_tensor_row: "wf_tensor t \<Longrightarrow> i < shape0 t \<Longrightarrow> length (rows t ! i) = width t"
  by (simp add: wf_tensor_def shape0_def list_all_length)

lemma brow_scalar: "length s = 1 \<Longrightarrow> brow r s = map (\<lambda>a. a * s ! 0) r"
  by (rule nth_equalityI) (auto simp add: brow_def bcast_dim_def bget_def)

lemma edge_message_length:
  assumes "wf_graph g" "node_features g F h" "e < length (edges g)"
  shows "length (edge_message g h w e) = F"
proof -
  have "fst (edges g ! e) < shape0 h"
    using assms by (simp add: wf_graph_src node_features_def)
  then have "length (rows h ! fst (edges g ! e)) = width h"
    using assms(2) by (simp add: wf_tensor_row node_features_def)
  then show ?thesis
    using assms(2) by (simp add: edge_message_def node_features_def width_def fwidth_def)
qed

lemma messages_scalar:
  assumes "scalar_weights g w" "e < length (edges g)"
  shows "messages g h w ! e = edge_message g h w e"
proof -
  have "length (rows w ! e) = 1"
    using assms wf_tensor_row [of w e] by (simp add: scalar_weights_def)
  moreover have "messages g h w ! e = brow (rows h ! fst (edges g ! e)) (rows w ! e)"
    using assms by (simp add: messages_def scalar_weights_def shape0_def)
  ultimately show ?thesis
    by (simp add: brow_scalar edge_message_def edge_weight_def)
qed

lemma messages_length: "scalar_weights g w \<Longrightarrow> length (messages g h w) = length (edges g)"
  by (simp add: messages_def scalar_weights_def shape0_def)

lemma msg_fshape_scalar:
  "node_features g F h \<Longrightarrow> scalar_weights g w \<Longrightarrow> msg_fshape h w = Some F"
  by (auto simp add: msg_fshape_def node_features_def scalar_weights_def width_def fwidth_def
      bcast_dim_def split: option.splits)

lemma neighbor_repr_scalar:
  assumes "node_features g F h" "scalar_weights g w" "0 < F"
  shows "neighbor_repr g h w =
     Inr (Tensor (Some F) (mean_rows (num_nodes g) F (map snd (edges g)) (messages g h w)))"
proof -
  have "bcast_ok (width h) (width w)"
    using assms(2) by (simp add: scalar_weights_def bcast_ok_def)
  then show ?thesis
    using assms msg_fshape_scalar [OF assms(1,2)]
    by (simp add: neighbor_repr_def message_passing_imported node_features_def
        scalar_weights_def fwidth_def)
qed

lemma neighbor_row:
  assumes "node_features g F h" "scalar_weights g w" "v < num_nodes g"
  shows "mean_rows (num_nodes g) F (map snd (edges g)) (messages g h w) ! v =
     map (\<lambda>a. a / real (max (length (in_edges g v)) 1))
       (foldl vadd (replicate F 0) (map (edge_message g h w) (in_edges g v)))"
proof -
  have eq: "map (\<lambda>e. messages g h w ! e) (in_edges g v) = map (edge_message g h w) (in_edges g v)"
    using assms(2) by (simp add: messages_scalar in_edges_bound)
  have "length (map snd (edges g)) = length (messages g h w)"
    using assms(2) by (simp add: messages_length)
  from mean_rows_nth [OF assms(3) this, of F] show ?thesis
    unfolding in_edges_dsts eq .
qed

subsection \<open>The two message functions on matrices\<close>

text \<open>
  Where the node features and the edge weights are both matrices, with a row per edge,
  the operator \<^verbatim>\<open>*\<close> and the built-in multiplication broadcast the same way, and
  \<^verbatim>\<open>u_mul_e_udf\<close> can take the place of the built-in function.
\<close>

lemma map_brow_bget:
  assumes "length A = length B"
  shows "map (\<lambda>i. brow (bget A i) (bget B i)) [0..<bcast_dim (length A) (length B)]
       = map2 brow A B"
  using assms by (intro nth_equalityI) (auto simp add: bcast_dim_def bget_def)

lemma torch_mul_matrices:
  assumes "fshape x = Some c" "fshape y = Some d" "shape0 x = shape0 y"
  shows "torch_mul x y =
     (if bcast_ok c d then Inr (Tensor (Some (bcast_dim c d)) (map2 brow (rows x) (rows y)))
      else Inl (RuntimeError SizeMismatch))"
proof -
  have "length (rows x) = length (rows y)"
    using assms(3) by (simp add: shape0_def)
  from map_brow_bget [OF this] this show ?thesis
    using assms(1,2)
    by (simp add: torch_mul_def as_2d_def ncols_def Let_def bcast_ok_def [of "length (rows y)"])
qed

lemma dgl_mul_matrices:
  assumes "fshape x = Some c" "fshape y = Some d"
  shows "dgl_mul x y =
     (if bcast_ok c d then Inr (Tensor (Some (bcast_dim c d)) (map2 brow (rows x) (rows y)))
      else Inl (DGLError NotBroadcastable))"
  using assms by (simp add: dgl_mul_def width_def fwidth_def)

lemma udf_agrees_on_matrices:
  assumes "fshape h = Some F" "fshape w = Some c" "bcast_ok F c"
  shows "neighbor_repr_udf g h w = neighbor_repr g h w"
proof (cases "shape0 h = num_nodes g \<and> shape0 w = length (edges g)")
  case True
  let ?x = "Tensor (Some F) (map (\<lambda>i. rows h ! i) (map fst (edges g)))"
  have "shape0 ?x = shape0 w"
    using True by (simp add: shape0_def)
  then have "torch_mul ?x w = dgl_mul ?x w"
    using assms by (simp add: torch_mul_matrices dgl_mul_matrices)
  then show ?thesis
    using True assms(1)
    by (simp add: neighbor_repr_udf_def neighbor_repr_def message_passing_def set_ndata_def
        set_edata_def update_all_def all_edges_def gather_def u_mul_e_udf_def u_mul_e_def
        fn_u_mul_e_def name_u_mul_e_udf_def fn_mean_def imported_globals_def dgl_function_def)
next
  case False
  then show ?thesis
    by (auto simp add: neighbor_repr_udf_def neighbor_repr_def message_passing_def
        set_ndata_def set_edata_def)
qed

subsection \<open>The value of h_neigh under scalar weights\<close>

text \<open>
  What the message passing of \<^verbatim>\<open>forward\<close> is written to compute, in exact arithmetic:
  with \<^verbatim>\<open>dgl.function\<close> bound to \<^verbatim>\<open>fn\<close>, the row of a node with incoming edges is
  the mean of its incoming messages, and the row of a node without incoming edges is the
  zero vector.
\<close>

lemma imported_weighted_mean:
  assumes "wf_graph g" "node_features g F h" "scalar_weights g w" "v < num_nodes g"
    and "in_degree g v = k" "1 \<le> k" "0 < F"
  shows "\<exists>hn. neighbor_repr g h w = Inr hn \<and> fshape hn = Some F \<and>
           length (map (edge_message g h w) (in_edges g v)) = k \<and>
           rows hn ! v = vec_mean F (map (edge_message g h w) (in_edges g v))"
proof -
  let ?ms = "map (edge_message g h w) (in_edges g v)"
  let ?row = "map (\<lambda>a. a / real (max (length (in_edges g v)) 1)) (foldl vadd (replicate F 0) ?ms)"
  have len: "\<forall>m\<in>set ?ms. length m = F"
    using assms(1,2) by (auto simp add: edge_message_length in_edges_bound)
  have k: "max (length (in_edges g v)) 1 = length (in_edges g v)"
    using assms(5,6) by (simp add: in_degree_def)
  have "?row = vec_mean F ?ms"
  proof (rule nth_equalityI)
    show "length ?row = length (vec_mean F ?ms)"
      using len by (simp add: vec_mean_def foldl_vadd_length [where F = F])
  next
    fix j
    assume "j < length ?row"
    then have j: "j < F"
      using len by (simp add: foldl_vadd_length [where F = F])
    then have "foldl vadd (replicate F 0) ?ms ! j = (\<Sum>m\<leftarrow>?ms. m ! j)"
      using len by (simp add: foldl_vadd_nth [where F = F])
    then show "?row ! j = vec_mean F ?ms ! j"
      using j len k by (simp add: vec_mean_def foldl_vadd_length [where F = F])
  qed
  then show ?thesis
    using assms(5) neighbor_repr_scalar [OF assms(2,3,7)] neighbor_row [OF assms(2,3,4)]
    by (simp add: in_degree_def)
qed

lemma imported_zero_in_degree:
  assumes "node_features g F h" "scalar_weights g w" "v < num_nodes g"
    and "in_degree g v = 0" "0 < F"
  shows "\<exists>hn. neighbor_repr g h w = Inr hn \<and> fshape hn = Some F \<and>
           rows hn ! v = replicate F 0"
  using assms(4) neighbor_repr_scalar [OF assms(1,2,5)] neighbor_row [OF assms(1,2,3)]
  by (simp add: in_degree_def)

text \<open>
  The neighbour features of the examples are values of \<^verbatim>\<open>h_neigh\<close>: for the weights
  of the specification, for weights 0, and for weights of width 3 on node features of
  width 1.
\<close>

lemma imported_example:
  "neighbor_repr ex_graph ex_h ex_w = Inr ex_neigh"
  "neighbor_repr ex_graph ex_h ex_w_zero = Inr ex_neigh_zero"
  "neighbor_repr ex_graph ex_h1 ex_w_wide = Inr ex_neigh3"
  by code_simp+

section \<open>The claims\<close>

text \<open>
  C1. The claim is that the row of \<^verbatim>\<open>h_neigh\<close> of a node of in-degree \<open>k \<ge> 1\<close> is the
  mean of its \<open>k\<close> incoming messages. The notebook as it is computes no \<^verbatim>\<open>h_neigh\<close>:
  the first four statements of \<^verbatim>\<open>forward\<close> end in an exception on every input, in the
  \<^verbatim>\<open>NameError\<close> for \<^verbatim>\<open>fn\<close> whenever the two assignments pass, as on the example of
  the specification.
\<close>

theorem notebook_message_passing_raises:
  "fst (message_passing notebook_globals fn_u_mul_e g h w) =
     (if shape0 h \<noteq> num_nodes g then Inl (DGLError FeatureNodeCount)
      else if shape0 w \<noteq> length (edges g) then Inl (DGLError FeatureEdgeCount)
      else Inl (NameError ''fn'')) \<and>
   fst (message_passing notebook_globals fn_u_mul_e ex_graph ex_h ex_w) = Inl (NameError ''fn'')"
  by (simp add: message_passing_notebook ex_graph_def ex_h_def ex_w_def shape0_def)




text \<open>
  C3. The claim is that a call of \<^verbatim>\<open>forward\<close> leaves the node data and the edge data of
  the graph as they were. In the notebook as it is, the call on the example of the
  specification raises the \<^verbatim>\<open>NameError\<close> inside the local scope, and the graph, which
  had no fields, is left with \<^verbatim>\<open>h\<close> in its node data and \<^verbatim>\<open>w\<close> in its edge data.
  A call with a weight missing raises at the second assignment and leaves \<^verbatim>\<open>h\<close> behind.
\<close>

theorem raised_call_keeps_fields:
  "ndata ex_graph ''h'' = None \<and> edata ex_graph ''w'' = None \<and>
   fst (forward notebook_globals ex_module ex_graph ex_h ex_w) = Inl (NameError ''fn'') \<and>
   ndata (snd (forward notebook_globals ex_module ex_graph ex_h ex_w)) ''h'' = Some ex_h \<and>
   edata (snd (forward notebook_globals ex_module ex_graph ex_h ex_w)) ''w'' = Some ex_w \<and>
   fst (forward notebook_globals ex_module ex_graph ex_h ex_w_short)
     = Inl (DGLError FeatureEdgeCount) \<and>
   ndata (snd (forward notebook_globals ex_module ex_graph ex_h ex_w_short)) ''h'' = Some ex_h"
  by code_simp




text \<open>
  C5, as amended. The call ends in the graph object's error about the number of edge
  features (the specification's \<^verbatim>\<open>UndefinedWeight\<close>), raised by
  \<^verbatim>\<open>g.edata['w'] = w\<close>, exactly when the node features have a row per node and the
  number of entries of the edge weights differs from the number of edges, be it smaller
  or larger. This holds of the notebook as it is and once \<^verbatim>\<open>dgl.function\<close> is bound
  to \<^verbatim>\<open>fn\<close>. With one entry per edge the error is never raised.
\<close>

theorem edge_count_error:
  "((fst (forward notebook_globals self g h w) = Inl (DGLError FeatureEdgeCount))
      = (shape0 h = num_nodes g \<and> shape0 w \<noteq> length (edges g))) \<and>
   ((fst (forward imported_globals self g h w) = Inl (DGLError FeatureEdgeCount))
      = (shape0 h = num_nodes g \<and> shape0 w \<noteq> length (edges g)))"
  by (simp add: forward_notebook forward_imported_edge_count)

theorem edge_count_error_witness:
  "shape0 ex_h = num_nodes ex_graph \<and> shape0 ex_w_short < length (edges ex_graph) \<and>
   fst (forward notebook_globals ex_module ex_graph ex_h ex_w_short)
     = Inl (DGLError FeatureEdgeCount) \<and>
   shape0 ex_w = length (edges ex_graph) \<and>
   fst (forward notebook_globals ex_module ex_graph ex_h ex_w)
     \<noteq> Inl (DGLError FeatureEdgeCount)"
proof -
  have n: "shape0 ex_h = num_nodes ex_graph"
    and short: "shape0 ex_w_short < length (edges ex_graph)"
    and full: "shape0 ex_w = length (edges ex_graph)"
    by (simp_all add: ex_h_def ex_w_short_def ex_w_def ex_graph_def shape0_def)
  from edge_count_error [of ex_module ex_graph ex_h ex_w_short]
    edge_count_error [of ex_module ex_graph ex_h ex_w]
  show ?thesis
    using n short full by simp
qed

text \<open>
  C5 as the specification states it fails in both halves. With three weights for the two
  edges of the example every edge has a weight, and the call still ends in the error
  about the number of edge features. With a weight missing and a row of node features
  missing as well, the call ends in the error about the number of node features instead.
\<close>

theorem undefined_weight_counterexample:
  "length (edges ex_graph) = 2 \<and> shape0 ex_w_long = 3 \<and>
   fst (forward notebook_globals ex_module ex_graph ex_h ex_w_long)
     = Inl (DGLError FeatureEdgeCount) \<and>
   shape0 ex_w_short = 1 \<and>
   fst (forward notebook_globals ex_module ex_graph ex_h_short ex_w_short)
     = Inl (DGLError FeatureNodeCount)"
  by code_simp

text \<open>
  C6. The claim is that a node without incoming edges gets the zero vector and that the
  call does not fail. Node 0 of the example has no incoming edge, and the call of the
  notebook as it is fails on the example with the \<^verbatim>\<open>NameError\<close> for \<^verbatim>\<open>fn\<close>; no row
  of \<^verbatim>\<open>h_neigh\<close> is stored in the graph.
\<close>

theorem notebook_fails_with_isolated_node:
  "in_degree ex_graph 0 = 0 \<and>
   fst (forward notebook_globals ex_module ex_graph ex_h ex_w) = Inl (NameError ''fn'') \<and>
   ndata (snd (forward notebook_globals ex_module ex_graph ex_h ex_w)) ''h_neigh'' = None"
  by code_simp

text \<open>
  C10. \<^verbatim>\<open>u_mul_e_udf\<close> is not equivalent to \<^verbatim>\<open>fn.u_mul_e('h', 'w', 'm')\<close> on edge
  weights of shape \<open>(E,)\<close>. With two edges and node features of width 3 the operator
  \<^verbatim>\<open>*\<close> of the user-defined function raises where the built-in function scales each
  source row by the weight of its edge; with two edges and width 2 it returns, but scales
  column \<open>j\<close> by the weight of edge \<open>j\<close>, and \<^verbatim>\<open>h_neigh\<close> differs.
\<close>

theorem udf_differs:
  "neighbor_repr_udf ex_graph ex_h3 ex_w = Inl (RuntimeError SizeMismatch) \<and>
   neighbor_repr ex_graph ex_h3 ex_w
     = Inr (Tensor (Some 3) [[0, 0, 0], [0, 0, 0], [5 / 4, 7 / 4, 9 / 4]]) \<and>
   neighbor_repr_udf ex_graph ex_h_ones ex_w13
     = Inr (Tensor (Some 2) [[0, 0], [0, 0], [1, 3]]) \<and>
   neighbor_repr ex_graph ex_h_ones ex_w13
     = Inr (Tensor (Some 2) [[0, 0], [0, 0], [2, 2]])"
  by code_simp

end
